theory Spec2Isabelle
  imports Main "HOL-Library.AList"
begin

section \<open>Shell basics shared by the scripts\<close>

text \<open>
  The repository's programs are bash scripts and one buildx bake file. A script is
  embedded as a function from the outcomes of the external commands it invokes (exit
  status, standard output) and, for the git scripts, from an abstract repository state,
  to the script's exit status, the commands it invoked and the state it leaves.

  An exit status is a natural number, 0 meaning success. The \<open>set\<close> line of a script
  gives its options; with \<open>errexit\<close> a command in plain statement position whose status
  is not 0 ends the script with that status.
\<close>

type_synonym status = nat

record shopts =
  errexit :: bool
  nounset :: bool
  pipefail :: bool

definition aborts :: "shopts \<Rightarrow> status \<Rightarrow> bool" where
  "aborts opts st = (errexit opts \<and> st \<noteq> 0)"

text \<open>The external commands the modelled scripts invoke.\<close>

datatype cmd =
    GitFetchUpstream
  | GitRevParseHead
  | GitRevParseVerify
  | GitLogHeadUpstream
  | GitMergeBase
  | GitMergeTree
  | GitRebaseUpstream
  | GitStatus
  | GitStatusPorcelain
  | GitStatusShort
  | GitShow nat string
  | GitCheckoutOurs string
  | GitCheckoutTheirs string
  | GitAdd string
  | GitDiffUnmerged
  | GitBranch string
  | GitBranchShowCurrent
  | GitCheckoutB string
  | GitRemoteGetUrl
  | GitRevListCount
  | BunRun string
  | BunVersion
  | BunxLefthookVersion
  | BunxBiomeVersion
  | ReadReply
  | RunScript string

text \<open>Shell variables: an unset variable reads as the empty string (no \<open>nounset\<close>).\<close>

type_synonym vars = "string \<Rightarrow> string"

section \<open>scripts/fork-health.sh\<close>


record health_env =
  inherited :: vars
  git_fetch_upstream :: status
  bun_run_build :: status
  bun_run_test_ci :: status
  bun_run_typecheck :: status
  bun_version_probe :: status
  bun_version_stdout :: string
  lefthook_probe :: status
  lefthook_stdout :: string
  biome_probe :: status
  biome_stdout :: string

text \<open>Lines 39-64: build, test and TypeScript validation.\<close>

definition build_validation :: "health_env \<Rightarrow> vars \<Rightarrow> vars" where
  "build_validation e v =
     (if bun_run_build e = 0 then v(''build_status'' := ''pass'')
      else v(''build_status'' := ''fail''))"

definition test_validation :: "health_env \<Rightarrow> vars \<Rightarrow> vars" where
  "test_validation e v =
     (if bun_run_test_ci e = 0 then v(''test_status'' := ''pass'')
      else v(''test_status'' := ''fail''))"

definition typescript_validation :: "health_env \<Rightarrow> vars \<Rightarrow> vars" where
  "typescript_validation e v =
     (if bun_run_typecheck e = 0 then v(''ts_status'' := ''pass'')
      else v(''ts_status'' := ''issues''))"

text \<open>
  Lines 70-92: each tool is probed once for its status and, when that succeeded, run a
  second time for its output, which becomes the version variable. A failed probe assigns
  nothing.
\<close>

definition bun_validation :: "health_env \<Rightarrow> vars \<Rightarrow> vars" where
  "bun_validation e v =
     (if bun_version_probe e = 0 then v(''bun_version'' := bun_version_stdout e) else v)"

definition lefthook_validation :: "health_env \<Rightarrow> vars \<Rightarrow> vars" where
  "lefthook_validation e v =
     (if lefthook_probe e = 0 then v(''lefthook_version'' := lefthook_stdout e) else v)"

definition biome_validation :: "health_env \<Rightarrow> vars \<Rightarrow> vars" where
  "biome_validation e v =
     (if biome_probe e = 0 then v(''biome_version'' := biome_stdout e) else v)"

text \<open>Lines 135-145: the tally, one \<open>[ test ] && ((health_score++))\<close> per check.\<close>

definition total_checks :: nat where
  "total_checks = 6"

definition tally :: "vars \<Rightarrow> nat" where
  "tally v =
     (let h = 0;
          h = (if v ''build_status'' = ''pass'' then h + 1 else h);
          h = (if v ''test_status'' = ''pass'' then h + 1 else h);
          h = (if v ''ts_status'' \<noteq> ''fail'' then h + 1 else h);
          h = (if v ''bun_version'' \<noteq> '''' then h + 1 else h);
          h = (if v ''lefthook_version'' \<noteq> '''' then h + 1 else h);
          h = (if v ''biome_version'' \<noteq> '''' then h + 1 else h)
      in h)"

record health_report =
  h_exit :: status
  h_cmds :: "cmd list"
  h_vars :: vars
  health_score :: nat
  health_percentage :: nat

definition probe_cmds :: "cmd \<Rightarrow> status \<Rightarrow> cmd list" where
  "probe_cmds c st = (if st = 0 then [c, c] else [c])"

definition fork_health :: "health_env \<Rightarrow> health_report" where
  "fork_health e =
     (let v = inherited e;
          v = build_validation e v;
          v = test_validation e v;
          v = typescript_validation e v;
          v = bun_validation e v;
          v = lefthook_validation e v;
          v = biome_validation e v;
          score = tally v
      in \<lparr>h_exit = 0,
          h_cmds = [GitFetchUpstream, BunRun ''build'', BunRun ''test:ci'', BunRun ''typecheck'']
            @ probe_cmds BunVersion (bun_version_probe e)
            @ probe_cmds BunxLefthookVersion (lefthook_probe e)
            @ probe_cmds BunxBiomeVersion (biome_probe e),
          h_vars = v,
          health_score = score,
          health_percentage = score * 100 div total_checks\<rparr>)"




section \<open>docker-bake.hcl\<close>

text \<open>
  The bake file declares variables with defaults; buildx bake takes a variable's value
  from the environment variable of the same name when one is set, and the default
  otherwise.
\<close>

type_synonym bake_env = "string \<rightharpoonup> string"

definition variables :: "(string \<times> string) list" where
  "variables =
     [(''APP_VERSION'', ''latest''),
      (''REGISTRY'', ''peterkc/cipher''),
      (''BUN_VERSION'', ''1.2.21''),
      (''BUILD_UI'', ''false''),
      (''BUILDKIT_INLINE_CACHE'', ''1''),
      (''DOCKER_BUILDKIT'', ''1''),
      (''PUSH_TO_REGISTRY'', ''false''),
      (''OUTPUT_TYPE'', ''docker'')]"

definition var_value :: "bake_env \<Rightarrow> string \<Rightarrow> string" where
  "var_value env name =
     (case env name of
        Some v \<Rightarrow> v
      | None \<Rightarrow> (case map_of variables name of Some d \<Rightarrow> d | None \<Rightarrow> ''''))"

text \<open>
  Of a target, the name, the targets it inherits from and its own \<open>output\<close> attribute
  (\<open>None\<close> when the block has none) are kept.
\<close>

record target =
  target_name :: string
  inherits :: "string list"
  output_attr :: "(bake_env \<Rightarrow> string list) option"

text \<open>
  \<open>output = [PUSH_TO_REGISTRY == "true" ? "type=registry" : "type=${OUTPUT_TYPE}"]\<close>
\<close>

definition conditional_output :: "bake_env \<Rightarrow> string list" where
  "conditional_output env =
     [if var_value env ''PUSH_TO_REGISTRY'' = ''true'' then ''type=registry''
      else ''type='' @ var_value env ''OUTPUT_TYPE'']"

definition cipher_base :: target where
  "cipher_base = \<lparr>target_name = ''cipher-base'', inherits = [],
     output_attr = Some (\<lambda>_. [''type=docker''])\<rparr>"

definition cipher_dev :: target where
  "cipher_dev = \<lparr>target_name = ''cipher-dev'', inherits = [''cipher-base''],
     output_attr = Some conditional_output\<rparr>"

definition cipher_prod :: target where
  "cipher_prod = \<lparr>target_name = ''cipher-prod'', inherits = [''cipher-base''],
     output_attr = Some conditional_output\<rparr>"

definition cipher_release :: target where
  "cipher_release = \<lparr>target_name = ''cipher-release'', inherits = [''cipher-prod''],
     output_attr = None\<rparr>"

definition targets :: "target list" where
  "targets = [cipher_base, cipher_dev, cipher_prod, cipher_release]"

text \<open>
  Bake resolves an attribute by inheritance: the target's own value when it has one,
  otherwise the value of its parents, a later parent overriding an earlier one. The
  first argument bounds the depth of the inheritance chain.
\<close>

fun resolve_output :: "nat \<Rightarrow> target list \<Rightarrow> bake_env \<Rightarrow> string \<Rightarrow> string list option" where
  "resolve_output 0 ts env n = None"
| "resolve_output (Suc k) ts env n =
     (case find (\<lambda>t. target_name t = n) ts of
        None \<Rightarrow> None
      | Some t \<Rightarrow>
          (case output_attr t of
             Some f \<Rightarrow> Some (f env)
           | None \<Rightarrow>
               fold (\<lambda>p acc. case resolve_output k ts env p of Some out \<Rightarrow> Some out | None \<Rightarrow> acc)
                 (inherits t) None))"

definition target_output :: "bake_env \<Rightarrow> string \<Rightarrow> string list option" where
  "target_output env n = resolve_output (length targets) targets env n"

section \<open>docker/scripts/build.sh\<close>


datatype node = RegularFile | Directory

type_synonym files = "string \<rightharpoonup> node"

definition is_file :: "files \<Rightarrow> string \<Rightarrow> bool" where
  "is_file fs p = (fs p = Some RegularFile)"

definition is_dir :: "files \<Rightarrow> string \<Rightarrow> bool" where
  "is_dir fs p = (fs p = Some Directory)"

record build_env =
  given :: vars
  files_at_start :: files
  bun_on_path :: bool
  available_space :: "int option"
  bun_install :: "string \<Rightarrow> status"
  bun_run_dry_run :: status
  bun_run_build_cmd :: "string \<Rightarrow> status"
  files_after_build :: files
  files_at_verify :: files

text \<open>Lines 8-10: \<open>VAR="${VAR:-default}"\<close>.\<close>

definition with_default :: "vars \<Rightarrow> string \<Rightarrow> string \<Rightarrow> string" where
  "with_default v name d = (if v name = '''' then d else v name)"

definition BUILD_UI :: "build_env \<Rightarrow> string" where
  "BUILD_UI e = with_default (given e) ''BUILD_UI'' ''false''"

definition NODE_ENV :: "build_env \<Rightarrow> string" where
  "NODE_ENV e = with_default (given e) ''NODE_ENV'' ''production''"

definition ENABLE_CACHE :: "build_env \<Rightarrow> string" where
  "ENABLE_CACHE e = with_default (given e) ''ENABLE_CACHE'' ''true''"

definition error_exit :: "string \<Rightarrow> string list \<times> status option" where
  "error_exit msg = ([''ERROR: '' @ msg], Some 1)"

definition validate_environment :: "build_env \<Rightarrow> string list \<times> status option" where
  "validate_environment e =
     (if \<not> is_file (files_at_start e) ''package.json'' then
        error_exit ''package.json not found - are we in the correct directory?''
      else if \<not> bun_on_path e then error_exit ''Bun runtime not found''
      else
        ([''Build Configuration:'', ''  UI Build: '' @ BUILD_UI e,
          ''  Environment: '' @ NODE_ENV e, ''  Cache: '' @ ENABLE_CACHE e]
         @ (case available_space e of
              Some kb \<Rightarrow> (if kb < 1000000 then [''WARNING: Low disk space''] else [])
            | None \<Rightarrow> []),
         None))"

definition install_args :: "build_env \<Rightarrow> string" where
  "install_args e =
     (let a = ''--frozen-lockfile'';
          a = (if ENABLE_CACHE e = ''true'' then a @ '' --verbose'' else a);
          a = (if NODE_ENV e = ''production'' then a @ '' --production'' else a)
      in a)"

definition install_dependencies :: "build_env \<Rightarrow> string list \<times> status option" where
  "install_dependencies e =
     (if bun_install e (install_args e) = 0 then ([''Dependencies installed successfully''], None)
      else error_exit ''Failed to install dependencies'')"

definition build_cmd :: "build_env \<Rightarrow> string" where
  "build_cmd e =
     (let c = (if BUILD_UI e = ''true'' then ''compile'' else ''compile:no-ui'')
      in if bun_run_dry_run e \<noteq> 0
         then (if BUILD_UI e = ''true'' then ''build'' else ''build:backend'')
         else c)"

definition build_application :: "build_env \<Rightarrow> string list \<times> status option" where
  "build_application e =
     (if bun_run_build_cmd e (build_cmd e) = 0 then
        (''Application built successfully''
         # (if is_dir (files_after_build e) ''dist'' then [''Build output size'']
            else [''Warning: dist directory not found after build'']),
         None)
      else error_exit ''Failed to build application'')"

definition cleanup_build :: "build_env \<Rightarrow> string list \<times> status option" where
  "cleanup_build e =
     (if NODE_ENV e = ''production'' then ([''Production cleanup completed''], None)
      else ([], None))"

text \<open>Lines 151-179.\<close>

definition verify_build :: "files \<Rightarrow> string list \<times> status option" where
  "verify_build fs =
     (let errors = (0::nat);
          (l1, errors) =
            (if is_file fs ''dist/cipher'' then ([''Main executable found: dist/cipher''], errors)
             else if is_file fs ''dist/index.js'' then ([''Main script found: dist/index.js''], errors)
             else ([''Main executable/script not found in dist/''], errors + 1));
          l2 = (if is_dir fs ''memAgent'' then [''memAgent configuration found'']
                else [''memAgent configuration not found''])
      in if errors = 0 then (l1 @ l2 @ [''Build verification passed''], None)
         else (case error_exit ''Build verification failed with 1 errors'' of
                 (l3, x) \<Rightarrow> (l1 @ l2 @ l3, x)))"

text \<open>
  Lines 182-192: \<open>main\<close> calls the five functions in order; a function that exits ends
  the script there, and after the last one the script ends with status 0.
\<close>

fun run_functions :: "(string list \<times> status option) list \<Rightarrow> string list \<times> status" where
  "run_functions [] = ([''Build process completed successfully!''], 0)"
| "run_functions ((l, Some s) # rest) = (l, s)"
| "run_functions ((l, None) # rest) = (l @ fst (run_functions rest), snd (run_functions rest))"

definition build_main :: "build_env \<Rightarrow> string list \<times> status" where
  "build_main e =
     run_functions
       [validate_environment e, install_dependencies e, build_application e,
        cleanup_build e, verify_build (files_at_verify e)]"

text \<open>The verification step is reached when the three steps that can exit did not.\<close>

definition build_succeeded :: "build_env \<Rightarrow> bool" where
  "build_succeeded e =
     (snd (validate_environment e) = None \<and> snd (install_dependencies e) = None
      \<and> snd (build_application e) = None)"

text \<open>The same run with the entry \<open>memAgent\<close> changed at all three moments.\<close>

definition with_memAgent :: "node option \<Rightarrow> build_env \<Rightarrow> build_env" where
  "with_memAgent x e =
     e\<lparr>files_at_start := (files_at_start e)(''memAgent'' := x),
       files_after_build := (files_after_build e)(''memAgent'' := x),
       files_at_verify := (files_at_verify e)(''memAgent'' := x)\<rparr>"

text \<open>A run whose build succeeds and leaves \<open>dist/index.js\<close> but no \<open>memAgent\<close>.\<close>

definition built_without_memAgent :: build_env where
  "built_without_memAgent =
     \<lparr>given = (\<lambda>_. ''''),
      files_at_start = [''package.json'' \<mapsto> RegularFile],
      bun_on_path = True, available_space = Some 5000000, bun_install = (\<lambda>_. 0),
      bun_run_dry_run = 0, bun_run_build_cmd = (\<lambda>_. 0),
      files_after_build = [''package.json'' \<mapsto> RegularFile, ''dist'' \<mapsto> Directory,
        ''dist/index.js'' \<mapsto> RegularFile],
      files_at_verify = [''package.json'' \<mapsto> RegularFile, ''dist'' \<mapsto> Directory,
        ''dist/index.js'' \<mapsto> RegularFile]\<rparr>"

section \<open>The git repository as the scripts see it\<close>

text \<open>
  Of a repository the model keeps the local branches, the branch checked out (\<open>None\<close>
  while HEAD is detached), the commit HEAD resolves to, the remote-tracking ref
  \<open>upstream/main\<close>, whether a rebase is in progress, the index and the working tree.
  An index entry is either merged (stage 0) or unmerged, with the stages 1 (base),
  2 (ours) and 3 (theirs) that exist. Paths are taken relative to the repository root,
  from which the scripts are run.
\<close>

type_synonym path = string
type_synonym blob = string
type_synonym commit = nat

datatype entry = Merged blob | Unmerged "blob option" "blob option" "blob option"

record repo =
  branches :: "string \<rightharpoonup> commit"
  current :: "string option"
  head :: commit
  upstream_main :: "commit option"
  rebasing :: bool
  staged :: "(path \<times> entry) list"
  worktree :: "path \<rightharpoonup> blob"

text \<open>The two-letter code \<open>git status --porcelain\<close> prints for an unmerged path.\<close>

fun unmerged_code :: "entry \<Rightarrow> string option" where
  "unmerged_code (Merged b) = None"
| "unmerged_code (Unmerged (Some b) (Some ours) (Some theirs)) = Some ''UU''"
| "unmerged_code (Unmerged (Some b) (Some ours) None) = Some ''UD''"
| "unmerged_code (Unmerged (Some b) None (Some theirs)) = Some ''DU''"
| "unmerged_code (Unmerged None (Some ours) (Some theirs)) = Some ''AA''"
| "unmerged_code (Unmerged None (Some ours) None) = Some ''AU''"
| "unmerged_code (Unmerged None None (Some theirs)) = Some ''UA''"
| "unmerged_code (Unmerged (Some b) None None) = Some ''DD''"
| "unmerged_code (Unmerged None None None) = None"

text \<open>
  The lines of \<open>git status --porcelain\<close> for the unmerged paths. The lines git prints
  for other paths start with codes other than \<open>UU\<close>, \<open>DU\<close> and \<open>UD\<close>, so the script's
  \<open>grep\<close> never selects them; they are left out.
\<close>

definition status_porcelain :: "repo \<Rightarrow> string list" where
  "status_porcelain r =
     List.map_filter
       (\<lambda>(p, e). case unmerged_code e of Some c \<Rightarrow> Some (c @ '' '' @ p) | None \<Rightarrow> None)
       (staged r)"

text \<open>\<open>git diff --name-only --diff-filter=U\<close>: the unmerged paths.\<close>

definition unmerged_paths :: "repo \<Rightarrow> path list" where
  "unmerged_paths r = map fst (filter (\<lambda>(p, e). unmerged_code e \<noteq> None) (staged r))"

text \<open>\<open>git show :n:file\<close> succeeds when the index holds \<open>file\<close> at stage \<open>n\<close>.\<close>

fun stage :: "nat \<Rightarrow> entry \<Rightarrow> blob option" where
  "stage n (Merged b) = (if n = 0 then Some b else None)"
| "stage n (Unmerged b ours theirs) =
     (if n = 1 then b else if n = 2 then ours else if n = 3 then theirs else None)"

definition git_show_stage :: "repo \<Rightarrow> nat \<Rightarrow> path \<Rightarrow> bool" where
  "git_show_stage r n file =
     (case map_of (staged r) file of Some e \<Rightarrow> stage n e \<noteq> None | None \<Rightarrow> False)"

text \<open>
  \<open>git checkout --ours file\<close> (\<open>--theirs\<close>) writes stage 2 (3) of an unmerged path to
  the working tree and leaves the index alone; without that stage it fails and changes
  nothing. \<open>git add file\<close> puts the working-tree content into the index at stage 0,
  or drops the path from the index when the working tree has no such file.
\<close>

definition git_checkout_stage :: "nat \<Rightarrow> path \<Rightarrow> repo \<Rightarrow> repo" where
  "git_checkout_stage n file r =
     (case map_of (staged r) file of
        Some (Unmerged b ours theirs) \<Rightarrow>
          (case stage n (Unmerged b ours theirs) of
             Some content \<Rightarrow> r\<lparr>worktree := (worktree r)(file \<mapsto> content)\<rparr>
           | None \<Rightarrow> r)
      | _ \<Rightarrow> r)"

definition git_add :: "path \<Rightarrow> repo \<Rightarrow> repo" where
  "git_add file r =
     (case worktree r file of
        Some content \<Rightarrow> r\<lparr>staged := AList.update file (Merged content) (staged r)\<rparr>
      | None \<Rightarrow> r\<lparr>staged := AList.delete file (staged r)\<rparr>)"

text \<open>
  \<open>git fetch upstream\<close> moves the remote-tracking ref to the tip it fetched.
  \<open>git branch name\<close> creates \<open>name\<close> at HEAD and fails with status 128 when a branch
  of that name exists; \<open>git checkout -b name\<close> also switches to it.
\<close>

definition git_fetch :: "commit \<Rightarrow> repo \<Rightarrow> repo" where
  "git_fetch tip r = r\<lparr>upstream_main := Some tip\<rparr>"



text \<open>
  What \<open>git rebase upstream/main\<close> does is decided by the histories, which the model
  does not hold; the outcome is given. A clean rebase moves the checked-out branch to
  the rebased tip; a rebase that stops on conflicts leaves HEAD detached with a rebase
  in progress and unmerged entries in the index, and moves no branch; a refused or
  empty rebase changes nothing. Other branches are never moved.
\<close>

datatype rebase_outcome =
    RebaseClean commit "(path \<times> entry) list" "path \<rightharpoonup> blob"
  | RebaseConflicts commit "(path \<times> entry) list" "path \<rightharpoonup> blob"
  | RebaseUnchanged status

fun git_rebase :: "rebase_outcome \<Rightarrow> repo \<Rightarrow> status \<times> repo" where
  "git_rebase (RebaseClean c ix wt) r =
     (0, r\<lparr>branches := (case current r of Some b \<Rightarrow> (branches r)(b \<mapsto> c) | None \<Rightarrow> branches r),
           head := c, staged := ix, worktree := wt\<rparr>)"
| "git_rebase (RebaseConflicts c ix wt) r =
     (1, r\<lparr>current := None, head := c, rebasing := True, staged := ix, worktree := wt\<rparr>)"
| "git_rebase (RebaseUnchanged st) r = (st, r)"

section \<open>scripts/resolve-rebase-conflicts.sh\<close>

text \<open>
  The script runs under \<open>set -euo pipefail\<close>, in a bash that applies \<open>errexit\<close> to
  arithmetic commands (4.1 and later) and expands an empty array under \<open>nounset\<close>
  (4.4 and later). In the pipelines that end in \<open>grep -q\<close>, \<open>git status\<close> is taken
  to finish normally, so that the status of the pipeline is that of \<open>grep\<close>.
\<close>

definition resolve_opts :: shopts where
  "resolve_opts = \<lparr>errexit = True, nounset = True, pipefail = True\<rparr>"

definition KEEP_OURS :: "path list" where
  "KEEP_OURS = [''package.json'', ''bun.lock'', ''biome.json'', ''lefthook.yml'', ''justfile'',
     ''bunfig.toml'', ''.gitignore'']"

definition TAKE_THEIRS :: "path list" where
  "TAKE_THEIRS = []"

text \<open>
  Lines 45 and 59: \<open>grep -q "^UU.*$file\|^DU.*$file\|^UD.*$file"\<close>. The file name is
  used as a regular expression, in which a dot matches any character (the names of the
  two lists hold no other special character), and is not anchored at the end of the
  line.
\<close>

fun rx_here :: "string \<Rightarrow> string \<Rightarrow> bool" where
  "rx_here [] s = True"
| "rx_here (p # ps) [] = False"
| "rx_here (p # ps) (c # cs) = ((p = CHR ''.'' \<or> p = c) \<and> rx_here ps cs)"

fun rx_search :: "string \<Rightarrow> string \<Rightarrow> bool" where
  "rx_search pat [] = rx_here pat []"
| "rx_search pat (c # cs) = (rx_here pat (c # cs) \<or> rx_search pat cs)"

definition grep_conflict :: "path \<Rightarrow> string \<Rightarrow> bool" where
  "grep_conflict file line =
     (take 2 line \<in> set [''UU'', ''DU'', ''UD''] \<and> rx_search file (drop 2 line))"

text \<open>What the script prints, without the fixed banners and hints.\<close>

datatype msg =
    NotInRebase
  | KeepingOurs path
  | DeletedInOurs path
  | TakingTheirs path
  | DeletedUpstream path
  | AutoResolved nat
  | ManualNeeded nat
  | ManualFile path
  | AllResolved

record resolve_state =
  r_repo :: repo
  r_cmds :: "cmd list"
  r_out :: "msg list"
  resolved_count :: nat
  r_exit :: "status option"

text \<open>
  \<open>((resolved_count++))\<close> increments the variable; as a command its status is 1 when
  the value of the expression, which is the value before the increment, is 0.
\<close>

definition post_increment :: "nat \<Rightarrow> nat \<times> status" where
  "post_increment n = (n + 1, if n = 0 then 1 else 0)"

text \<open>
  Lines 44-55 and 58-69, one round of each loop. The failures of \<open>git checkout\<close> and
  \<open>git add\<close> are caught by \<open>||\<close>; the increment stands as a plain statement.
\<close>

definition auto_resolve :: "nat \<Rightarrow> path \<Rightarrow> resolve_state \<Rightarrow> resolve_state" where
  "auto_resolve n file s =
     (let s = s\<lparr>r_cmds := r_cmds s @ [GitStatusPorcelain]\<rparr> in
      if list_ex (grep_conflict file) (status_porcelain (r_repo s)) then
        (let s = s\<lparr>r_out := r_out s @ [if n = 2 then KeepingOurs file else TakingTheirs file],
                    r_cmds := r_cmds s @ [GitShow n file]\<rparr> in
         if git_show_stage (r_repo s) n file then
           (let s = s\<lparr>r_repo := git_add file (git_checkout_stage n file (r_repo s)),
                       r_cmds := r_cmds s
                         @ [if n = 2 then GitCheckoutOurs file else GitCheckoutTheirs file,
                            GitAdd file]\<rparr>;
                (count, st) = post_increment (resolved_count s);
                s = s\<lparr>resolved_count := count\<rparr>
            in if aborts resolve_opts st then s\<lparr>r_exit := Some st\<rparr> else s)
         else s\<lparr>r_out := r_out s @ [if n = 2 then DeletedInOurs file else DeletedUpstream file]\<rparr>)
      else s)"

text \<open>A \<open>for\<close> loop over a list; a round that ends the script ends the loop.\<close>

fun for_each :: "(path \<Rightarrow> resolve_state \<Rightarrow> resolve_state) \<Rightarrow> path list \<Rightarrow> resolve_state \<Rightarrow> resolve_state" where
  "for_each body [] s = s"
| "for_each body (file # files) s =
     (let s' = body file s in if r_exit s' \<noteq> None then s' else for_each body files s')"

text \<open>Lines 71-101: the summary; the script then ends with status 0.\<close>

definition summary :: "resolve_state \<Rightarrow> resolve_state" where
  "summary s =
     (let remaining = unmerged_paths (r_repo s);
          s = s\<lparr>r_out := r_out s @ [AutoResolved (resolved_count s)],
                 r_cmds := r_cmds s @ [GitDiffUnmerged]\<rparr>
      in if length remaining > 0 then
           s\<lparr>r_out := r_out s @ [ManualNeeded (length remaining)] @ map ManualFile remaining,
             r_cmds := r_cmds s @ [GitDiffUnmerged], r_exit := Some 0\<rparr>
         else s\<lparr>r_out := r_out s @ [AllResolved], r_exit := Some 0\<rparr>)"

definition resolve_rebase_conflicts :: "repo \<Rightarrow> resolve_state" where
  "resolve_rebase_conflicts r =
     (let s = \<lparr>r_repo = r, r_cmds = [GitStatus], r_out = [], resolved_count = 0, r_exit = None\<rparr> in
      if \<not> rebasing r then s\<lparr>r_out := [NotInRebase], r_exit := Some 1\<rparr>
      else
        (let s = for_each (auto_resolve 2) KEEP_OURS s in
         if r_exit s \<noteq> None then s
         else
           (let s = for_each (auto_resolve 3) TAKE_THEIRS s in
            if r_exit s \<noteq> None then s else summary s)))"

text \<open>
  A rebase stopped on two conflicts in the allow-list, both modified on both sides.
\<close>

definition two_tooling_conflicts :: repo where
  "two_tooling_conflicts =
     \<lparr>branches = [''main'' \<mapsto> 1], current = None, head = 2, upstream_main = Some 3,
      rebasing = True,
      staged = [(''bun.lock'', Unmerged (Some ''b0'') (Some ''b-ours'') (Some ''b-theirs'')),
                (''package.json'', Unmerged (Some ''p0'') (Some ''p-ours'') (Some ''p-theirs''))],
      worktree = [''bun.lock'' \<mapsto> ''b-markers'', ''package.json'' \<mapsto> ''p-markers'']\<rparr>"

text \<open>A rebase stopped on one conflict, in a source file outside the lists.\<close>

definition one_source_conflict :: repo where
  "one_source_conflict =
     \<lparr>branches = [''main'' \<mapsto> 1], current = None, head = 2, upstream_main = Some 3,
      rebasing = True,
      staged = [(''package.json'', Merged ''p''),
                (''src/app.ts'', Unmerged (Some ''a0'') (Some ''a-ours'') (Some ''a-theirs''))],
      worktree = [''package.json'' \<mapsto> ''p'', ''src/app.ts'' \<mapsto> ''a-markers'']\<rparr>"

text \<open>
  What it means for a run of the script to have left a path alone: no \<open>git checkout\<close>
  and no \<open>git add\<close> was run on it, its index entry and working-tree file are those of
  the repository the run started from, and no message other than an entry of the
  manual-resolution list names it.
\<close>

definition left_alone :: "path \<Rightarrow> repo \<Rightarrow> resolve_state \<Rightarrow> bool" where
  "left_alone p r s =
     (GitCheckoutOurs p \<notin> set (r_cmds s) \<and> GitCheckoutTheirs p \<notin> set (r_cmds s)
      \<and> GitAdd p \<notin> set (r_cmds s)
      \<and> map_of (staged (r_repo s)) p = map_of (staged r) p
      \<and> worktree (r_repo s) p = worktree r p
      \<and> KeepingOurs p \<notin> set (r_out s) \<and> DeletedInOurs p \<notin> set (r_out s)
      \<and> TakingTheirs p \<notin> set (r_out s) \<and> DeletedUpstream p \<notin> set (r_out s))"

text \<open>
  A rebase stopped on two conflicts, one in the allow-list and one in a source file
  outside the lists.
\<close>

definition tooling_and_source_conflict :: repo where
  "tooling_and_source_conflict =
     \<lparr>branches = [''main'' \<mapsto> 1], current = None, head = 2, upstream_main = Some 3,
      rebasing = True,
      staged = [(''package.json'', Unmerged (Some ''p0'') (Some ''p-ours'') (Some ''p-theirs'')),
                (''src/app.ts'', Unmerged (Some ''a0'') (Some ''a-ours'') (Some ''a-theirs''))],
      worktree = [''package.json'' \<mapsto> ''p-markers'', ''src/app.ts'' \<mapsto> ''a-markers'']\<rparr>"

section \<open>scripts/sync-upstream.sh\<close>

text \<open>
  The script runs under \<open>set -e\<close> alone. The status of a pipeline is that of its last
  command, or with \<open>pipefail\<close> that of the last command that failed.
\<close>

definition sync_opts :: shopts where
  "sync_opts = \<lparr>errexit = True, nounset = False, pipefail = False\<rparr>"

definition pipeline_status :: "shopts \<Rightarrow> status list \<Rightarrow> status" where
  "pipeline_status opts sts =
     (if pipefail opts then (case filter (\<lambda>st. st \<noteq> 0) sts of [] \<Rightarrow> 0 | fs \<Rightarrow> last fs)
      else (case sts of [] \<Rightarrow> 0 | _ \<Rightarrow> last sts))"

definition starts_with :: "string \<Rightarrow> string \<Rightarrow> bool" where
  "starts_with pre s = (take (length pre) s = pre)"

fun contains :: "string \<Rightarrow> string \<Rightarrow> bool" where
  "contains sub [] = (sub = [])"
| "contains sub (c # cs) = (starts_with sub (c # cs) \<or> contains sub cs)"

text \<open>
  Line 42: the lines of the preview that start with \<open>+++\<close> or \<open>---\<close>, with
  \<open>sed 's/^[+\-]*[ab]\///'\<close> applied, without those that hold \<open>/dev/null\<close>
  (\<open>sort -u\<close>, which only orders them and drops repetitions, is left out). The status of
  the pipeline is that of its last command, \<open>grep -v\<close>: 1 when it selects no line.
\<close>

definition sed_strip :: "string \<Rightarrow> string" where
  "sed_strip l =
     (case dropWhile (\<lambda>c. c \<in> set [CHR ''+'', CHR 0x5C, CHR ''-'']) l of
        c # d # rest \<Rightarrow> (if (c = CHR ''a'' \<or> c = CHR ''b'') \<and> d = CHR ''/'' then rest else l)
      | _ \<Rightarrow> l)"

definition conflict_files :: "string list \<Rightarrow> string list" where
  "conflict_files preview =
     filter (\<lambda>l. \<not> contains ''/dev/null'' l)
       (map sed_strip (filter (\<lambda>l. starts_with ''+++'' l \<or> starts_with ''---'' l) preview))"

text \<open>Line 56: \<open>[[ $confirm == [yY] || $confirm == [yY][eE][sS] ]]\<close>.\<close>

definition is_yes :: "string \<Rightarrow> bool" where
  "is_yes confirm =
     (confirm \<in> set [''y'', ''Y'']
      \<or> (case confirm of
            [a, b, c] \<Rightarrow> a \<in> set ''yY'' \<and> b \<in> set ''eE'' \<and> c \<in> set ''sS''
          | _ \<Rightarrow> False))"

text \<open>
  The environment of a run: the status of each git command, the tip \<open>git fetch\<close> brings,
  the output of \<open>git log --oneline HEAD..upstream/main\<close> and of \<open>git merge-tree\<close>, the line
  \<open>read\<close> gets (\<open>None\<close> at the end of input, where \<open>read\<close> has status 1), and the outcome
  of the rebase.
\<close>

record sync_env =
  sy_fetch :: status
  sy_fetched_tip :: commit
  sy_rev_parse :: status
  sy_log :: "status \<times> string list"
  sy_merge_base :: status
  sy_merge_tree :: "status \<times> string list"
  sy_confirm :: "string option"
  sy_rebase :: rebase_outcome

text \<open>
  The result of a run: the exit status, the commands invoked in order (those of a
  script it runs included), the messages that tell the outcomes apart (banners, hints
  and the output of a script it runs are left out) and the repository it leaves.
\<close>

record run_result =
  exit_status :: status
  invoked :: "cmd list"
  printed :: "string list"
  final_repo :: repo

definition finish :: "status \<Rightarrow> cmd list \<Rightarrow> string list \<Rightarrow> repo \<Rightarrow> run_result" where
  "finish st cs out r = \<lparr>exit_status = st, invoked = cs, printed = out, final_repo = r\<rparr>"

definition sync_upstream :: "sync_env \<Rightarrow> repo \<Rightarrow> run_result" where
  "sync_upstream e r =
     (let cs = [GitFetchUpstream] in
      if aborts sync_opts (sy_fetch e) then finish (sy_fetch e) cs [] r
      else
      let r = (if sy_fetch e = 0 then git_fetch (sy_fetched_tip e) r else r);
          cs = cs @ [GitRevParseHead] in
      if aborts sync_opts (sy_rev_parse e) then finish (sy_rev_parse e) cs [] r
      else
      let cs = cs @ [GitLogHeadUpstream];
          st = pipeline_status sync_opts [fst (sy_log e), 0];
          upstream_commits = length (snd (sy_log e)) in
      if aborts sync_opts st then finish st cs [] r
      else if upstream_commits = 0 then finish 0 cs [''Fork is current with upstream''] r
      else
      let cs = cs @ [GitLogHeadUpstream, GitMergeBase] in
      if aborts sync_opts (sy_merge_base e) then finish (sy_merge_base e) cs [] r
      else
      let cs = cs @ [GitMergeTree] in
      if aborts sync_opts (fst (sy_merge_tree e)) then finish (fst (sy_merge_tree e)) cs [] r
      else
      let conflict_preview = snd (sy_merge_tree e) in
      if list_ex (contains ''<<<<<<< '') conflict_preview then
        (let out = [''Conflicts detected - manual resolution required''];
             st = (if conflict_files conflict_preview = [] then 1 else 0) in
         if aborts sync_opts st then finish st cs out r
         else finish 1 cs (out @ conflict_files conflict_preview @ [''Manual resolution workflow:'']) r)
      else
        (let out = [''Clean integration possible''];
             cs = cs @ [ReadReply];
             (st, confirm) = (case sy_confirm e of None \<Rightarrow> (1, '''') | Some c \<Rightarrow> (0, c)) in
         if aborts sync_opts st then finish st cs out r
         else if is_yes confirm then
           (let cs = cs @ [GitRebaseUpstream];
                (st, r) = git_rebase (sy_rebase e) r in
            if aborts sync_opts st then finish st cs (out @ [''Starting rebase...'']) r
            else finish 0 cs (out @ [''Starting rebase...'', ''Upstream sync complete!'']) r)
         else finish 0 cs (out @ [''Sync cancelled - run manually when ready'']) r))"

text \<open>A fork on its branch \<open>main\<close>, with the remote-tracking ref at commit 3.\<close>

definition fork_repo :: repo where
  "fork_repo =
     \<lparr>branches = [''main'' \<mapsto> 1], current = Some ''main'', head = 1, upstream_main = Some 3,
      rebasing = False, staged = [(''package.json'', Merged ''p'')],
      worktree = [''package.json'' \<mapsto> ''p'']\<rparr>"

text \<open>A run whose merge-tree preview shows a conflict.\<close>

definition conflicting_upstream :: sync_env where
  "conflicting_upstream =
     \<lparr>sy_fetch = 0, sy_fetched_tip = 7, sy_rev_parse = 0,
      sy_log = (0, [''abc1234 upstream change'']), sy_merge_base = 0,
      sy_merge_tree = (0, [''changed in both'', ''@@ -1,3 +1,7 @@'', ''+<<<<<<< .our'',
        ''+ours'', ''+======='', ''+theirs'', ''+>>>>>>> .their'']),
      sy_confirm = None, sy_rebase = RebaseUnchanged 0\<rparr>"

text \<open>A run that finds no upstream commit missing from HEAD.\<close>

definition nothing_new :: sync_env where
  "nothing_new =
     \<lparr>sy_fetch = 0, sy_fetched_tip = 3, sy_rev_parse = 0, sy_log = (0, []), sy_merge_base = 0,
      sy_merge_tree = (0, []), sy_confirm = None, sy_rebase = RebaseUnchanged 0\<rparr>"

section \<open>scripts/check-rebase-readiness.sh\<close>




section \<open>scripts/rebase-from-upstream.sh\<close>
















definition readiness_cmds :: "cmd list" where
  "readiness_cmds =
     [RunScript ''./scripts/check-rebase-readiness.sh'', GitStatusPorcelain,
      GitBranchShowCurrent, GitRemoteGetUrl, GitFetchUpstream, GitRevListCount,
      GitRevListCount, GitRevParseVerify, BunRun ''test:unit'']"


section \<open>The shell options of the repository's scripts\<close>










section \<open>Properties of scripts/fork-health.sh\<close>

lemmas health_steps =
  fork_health_def Let_def build_validation_def test_validation_def
  typescript_validation_def bun_validation_def lefthook_validation_def
  biome_validation_def



lemma ts_status_after:
  "h_vars (fork_health e) ''ts_status'' = (if bun_run_typecheck e = 0 then ''pass'' else ''issues'')"
  by (simp add: health_steps)




lemma tally_closed_form:
  "tally v =
     of_bool (v ''build_status'' = ''pass'') + of_bool (v ''test_status'' = ''pass'')
     + of_bool (v ''ts_status'' \<noteq> ''fail'') + of_bool (v ''bun_version'' \<noteq> '''')
     + of_bool (v ''lefthook_version'' \<noteq> '''') + of_bool (v ''biome_version'' \<noteq> '''')"
  by (simp add: tally_def Let_def)

lemma health_score_tally: "health_score (fork_health e) = tally (h_vars (fork_health e))"
  by (simp add: fork_health_def Let_def)

lemma health_percentage_score:
  "health_percentage (fork_health e) = health_score (fork_health e) * 100 div 6"
  by (simp add: fork_health_def Let_def total_checks_def)


text \<open>
  Claim C8. On every run the TypeScript status is \<open>pass\<close> or \<open>issues\<close>, never \<open>fail\<close>, so
  the TypeScript check always counts: the health score is at least 1 and the reported
  percentage at least 16, whatever the invoked commands return.
\<close>

theorem fork_health_ts_always_counts:
  "(h_vars (fork_health e) ''ts_status'' = ''pass'' \<or> h_vars (fork_health e) ''ts_status'' = ''issues'')
   \<and> h_vars (fork_health e) ''ts_status'' \<noteq> ''fail''
   \<and> 1 \<le> health_score (fork_health e)
   \<and> 16 \<le> health_percentage (fork_health e)"
proof -
  have ts: "h_vars (fork_health e) ''ts_status'' \<noteq> ''fail''"
    by (simp add: ts_status_after)
  have one: "1 \<le> health_score (fork_health e)"
    using ts by (simp add: health_score_tally tally_closed_form)
  have "16 \<le> health_score (fork_health e) * 100 div 6"
    using one by linarith
  with ts one show ?thesis
    by (simp add: ts_status_after health_percentage_score)
qed



section \<open>Properties of docker-bake.hcl\<close>

lemma declared_targets:
  "map target_name targets = [''cipher-base'', ''cipher-dev'', ''cipher-prod'', ''cipher-release'']"
  by (simp add: targets_def cipher_base_def cipher_dev_def cipher_prod_def cipher_release_def)

lemma output_cipher_base: "target_output env ''cipher-base'' = Some [''type=docker'']"
  by (simp add: target_output_def targets_def cipher_base_def)

lemma output_cipher_dev: "target_output env ''cipher-dev'' = Some (conditional_output env)"
  by (simp add: target_output_def targets_def cipher_base_def cipher_dev_def)

lemma output_cipher_prod: "target_output env ''cipher-prod'' = Some (conditional_output env)"
  by (simp add: target_output_def targets_def cipher_base_def cipher_dev_def cipher_prod_def)

lemma output_cipher_release: "target_output env ''cipher-release'' = Some (conditional_output env)"
  by (simp add: target_output_def targets_def cipher_base_def cipher_dev_def cipher_prod_def
      cipher_release_def)

text \<open>
  Claim C7 as stated fails in both directions: with \<open>PUSH_TO_REGISTRY=true\<close> the declared
  target \<open>cipher-base\<close> still outputs \<open>type=docker\<close>, and with \<open>PUSH_TO_REGISTRY\<close> unset
  and \<open>OUTPUT_TYPE=registry\<close> the target \<open>cipher-dev\<close> outputs \<open>type=registry\<close>.
\<close>

theorem bake_output_counterexample:
  "var_value [''PUSH_TO_REGISTRY'' \<mapsto> ''true''] ''PUSH_TO_REGISTRY'' = ''true''
   \<and> target_output [''PUSH_TO_REGISTRY'' \<mapsto> ''true''] ''cipher-base'' = Some [''type=docker'']
   \<and> var_value [''OUTPUT_TYPE'' \<mapsto> ''registry''] ''PUSH_TO_REGISTRY'' = ''false''
   \<and> target_output [''OUTPUT_TYPE'' \<mapsto> ''registry''] ''cipher-dev'' = Some [''type=registry'']"
  by (simp add: output_cipher_base output_cipher_dev conditional_output_def var_value_def
      variables_def)

text \<open>
  Claim C7, amended. The declared targets are \<open>cipher-base\<close>, \<open>cipher-dev\<close>,
  \<open>cipher-prod\<close> and \<open>cipher-release\<close>. \<open>cipher-base\<close> always outputs \<open>type=docker\<close>.
  Each of the other three (\<open>cipher-release\<close> through the output it inherits from
  \<open>cipher-prod\<close>) outputs \<open>type=registry\<close> when \<open>PUSH_TO_REGISTRY\<close> equals \<open>true\<close>, and
  otherwise \<open>type=\<close> followed by the value of \<open>OUTPUT_TYPE\<close>; with neither variable set
  in the environment that is \<open>type=docker\<close>.
\<close>

theorem bake_output:
  "map target_name targets = [''cipher-base'', ''cipher-dev'', ''cipher-prod'', ''cipher-release'']
   \<and> target_output env ''cipher-base'' = Some [''type=docker'']
   \<and> target_output env ''cipher-dev'' =
         Some [if var_value env ''PUSH_TO_REGISTRY'' = ''true'' then ''type=registry''
               else ''type='' @ var_value env ''OUTPUT_TYPE'']
   \<and> target_output env ''cipher-prod'' =
         Some [if var_value env ''PUSH_TO_REGISTRY'' = ''true'' then ''type=registry''
               else ''type='' @ var_value env ''OUTPUT_TYPE'']
   \<and> target_output env ''cipher-release'' =
         Some [if var_value env ''PUSH_TO_REGISTRY'' = ''true'' then ''type=registry''
               else ''type='' @ var_value env ''OUTPUT_TYPE'']
   \<and> target_output Map.empty ''cipher-dev'' = Some [''type=docker'']
   \<and> target_output Map.empty ''cipher-prod'' = Some [''type=docker'']
   \<and> target_output Map.empty ''cipher-release'' = Some [''type=docker'']"
  by (simp add: declared_targets output_cipher_base output_cipher_dev output_cipher_prod
      output_cipher_release conditional_output_def var_value_def variables_def)

section \<open>Properties of docker/scripts/build.sh\<close>

lemma verify_build_exit:
  "snd (verify_build fs) =
     (if is_file fs ''dist/cipher'' \<or> is_file fs ''dist/index.js'' then None else Some 1)"
  by (simp add: verify_build_def Let_def error_exit_def)

lemma verify_build_memAgent_frame:
  "snd (verify_build (fs(''memAgent'' := x))) = snd (verify_build fs)"
  by (simp add: verify_build_exit is_file_def)

lemma verify_build_memAgent_warning:
  "\<not> is_dir fs ''memAgent'' \<Longrightarrow> ''memAgent configuration not found'' \<in> set (fst (verify_build fs))"
  by (simp add: verify_build_def Let_def error_exit_def)

lemma build_main_exit:
  "snd (build_main e) =
     (if build_succeeded e then
        (case snd (verify_build (files_at_verify e)) of None \<Rightarrow> 0 | Some s \<Rightarrow> s)
      else 1)"
proof -
  obtain l1 x1 where v: "validate_environment e = (l1, x1)" by (cases "validate_environment e")
  obtain l2 x2 where i: "install_dependencies e = (l2, x2)" by (cases "install_dependencies e")
  obtain l3 x3 where b: "build_application e = (l3, x3)" by (cases "build_application e")
  obtain l4 where c: "cleanup_build e = (l4, None)"
    by (cases "NODE_ENV e = ''production''") (simp_all add: cleanup_build_def)
  obtain l5 x5 where f: "verify_build (files_at_verify e) = (l5, x5)"
    by (cases "verify_build (files_at_verify e)")
  have x1: "x1 = None \<or> x1 = Some 1"
    using v by (auto simp add: validate_environment_def error_exit_def split: if_splits)
  have x2: "x2 = None \<or> x2 = Some 1"
    using i by (auto simp add: install_dependencies_def error_exit_def split: if_splits)
  have x3: "x3 = None \<or> x3 = Some 1"
    using b by (auto simp add: build_application_def error_exit_def split: if_splits)
  show ?thesis
    using x1 x2 x3
    by (cases x5) (auto simp add: build_main_def build_succeeded_def v i b c f)
qed

lemma build_succeeded_memAgent:
  "build_succeeded (with_memAgent x e) = build_succeeded e"
  by (simp add: build_succeeded_def with_memAgent_def validate_environment_def
      install_dependencies_def build_application_def build_cmd_def install_args_def BUILD_UI_def
      NODE_ENV_def ENABLE_CACHE_def is_file_def is_dir_def)

text \<open>
  Claim C10. The verification step ends the script with a nonzero status exactly when
  neither \<open>dist/cipher\<close> nor \<open>dist/index.js\<close> is a file; it is reached only after the
  environment check, the installation and the build succeeded, and then the whole script
  exits nonzero exactly in that case. A missing \<open>memAgent\<close> directory is logged as a
  warning, and neither the step's nor the script's exit status depends on \<open>memAgent\<close>.
\<close>

theorem build_verification:
  "((\<exists>s. snd (verify_build fs) = Some s \<and> s \<noteq> 0)
      \<longleftrightarrow> (\<not> is_file fs ''dist/cipher'' \<and> \<not> is_file fs ''dist/index.js''))
   \<and> (build_succeeded e \<longrightarrow>
        (snd (build_main e) \<noteq> 0
           \<longleftrightarrow> (\<not> is_file (files_at_verify e) ''dist/cipher''
                \<and> \<not> is_file (files_at_verify e) ''dist/index.js'')))
   \<and> (\<not> is_dir fs ''memAgent'' \<longrightarrow>
        ''memAgent configuration not found'' \<in> set (fst (verify_build fs)))
   \<and> snd (verify_build (fs(''memAgent'' := x))) = snd (verify_build fs)
   \<and> snd (build_main (with_memAgent x e)) = snd (build_main e)"
proof -
  have a: "(\<exists>s. snd (verify_build fs) = Some s \<and> s \<noteq> 0)
      \<longleftrightarrow> (\<not> is_file fs ''dist/cipher'' \<and> \<not> is_file fs ''dist/index.js'')"
    by (simp add: verify_build_exit)
  have b: "build_succeeded e \<longrightarrow>
        (snd (build_main e) \<noteq> 0
           \<longleftrightarrow> (\<not> is_file (files_at_verify e) ''dist/cipher''
                \<and> \<not> is_file (files_at_verify e) ''dist/index.js''))"
    by (simp add: build_main_exit verify_build_exit)
  have c: "\<not> is_dir fs ''memAgent'' \<longrightarrow>
        ''memAgent configuration not found'' \<in> set (fst (verify_build fs))"
    using verify_build_memAgent_warning by blast
  have d: "snd (verify_build (fs(''memAgent'' := x))) = snd (verify_build fs)"
    by (rule verify_build_memAgent_frame)
  have "files_at_verify (with_memAgent x e) = (files_at_verify e)(''memAgent'' := x)"
    by (simp add: with_memAgent_def)
  then have e: "snd (build_main (with_memAgent x e)) = snd (build_main e)"
    by (simp add: build_main_exit build_succeeded_memAgent verify_build_memAgent_frame)
  from a b c d e show ?thesis by blast
qed

theorem build_verification_witness:
  "build_succeeded built_without_memAgent
   \<and> \<not> is_dir (files_at_verify built_without_memAgent) ''memAgent''
   \<and> is_file (files_at_verify built_without_memAgent) ''dist/index.js''
   \<and> snd (build_main built_without_memAgent) = 0
   \<and> ''memAgent configuration not found''
        \<in> set (fst (verify_build (files_at_verify built_without_memAgent)))"
proof -
  have s: "build_succeeded built_without_memAgent"
    by (simp add: build_succeeded_def built_without_memAgent_def validate_environment_def
        install_dependencies_def build_application_def is_file_def)
  have m: "\<not> is_dir (files_at_verify built_without_memAgent) ''memAgent''"
    by (simp add: built_without_memAgent_def is_dir_def)
  have f: "is_file (files_at_verify built_without_memAgent) ''dist/index.js''"
    by (simp add: built_without_memAgent_def is_file_def)
  show ?thesis
    using build_verification [of "files_at_verify built_without_memAgent" built_without_memAgent]
      s m f by blast
qed

section \<open>Properties of scripts/resolve-rebase-conflicts.sh\<close>

lemmas resolve_eval =
  resolve_rebase_conflicts_def Let_def KEEP_OURS_def TAKE_THEIRS_def auto_resolve_def
  status_porcelain_def List.map_filter_def grep_conflict_def git_show_stage_def
  post_increment_def aborts_def resolve_opts_def git_add_def git_checkout_stage_def
  summary_def unmerged_paths_def

text \<open>
  Claim C1 fails on the code. With \<open>package.json\<close> and \<open>bun.lock\<close> both in conflict and
  both present at stage 2, the script checks out and stages \<open>package.json\<close>; the
  increment of \<open>resolved_count\<close> from 0 then has status 1, and under \<open>errexit\<close> the script
  ends there with status 1. \<open>bun.lock\<close> is never examined and stays unmerged.
\<close>

theorem resolve_stops_after_first_file:
  "rebasing two_tooling_conflicts
   \<and> list_ex (grep_conflict ''bun.lock'') (status_porcelain two_tooling_conflicts)
   \<and> git_show_stage two_tooling_conflicts 2 ''bun.lock''
   \<and> r_exit (resolve_rebase_conflicts two_tooling_conflicts) = Some 1
   \<and> r_cmds (resolve_rebase_conflicts two_tooling_conflicts) =
        [GitStatus, GitStatusPorcelain, GitShow 2 ''package.json'',
         GitCheckoutOurs ''package.json'', GitAdd ''package.json'']
   \<and> staged (r_repo (resolve_rebase_conflicts two_tooling_conflicts)) =
        [(''bun.lock'', Unmerged (Some ''b0'') (Some ''b-ours'') (Some ''b-theirs'')),
         (''package.json'', Merged ''p-ours'')]
   \<and> unmerged_paths (r_repo (resolve_rebase_conflicts two_tooling_conflicts)) = [''bun.lock'']"
  by (simp add: resolve_eval two_tooling_conflicts_def)

lemma left_alone_auto_resolve:
  assumes "file \<noteq> p" and "left_alone p r s"
  shows "left_alone p r (auto_resolve n file s)"
  using assms
  by (auto simp add: left_alone_def auto_resolve_def Let_def post_increment_def git_add_def
      git_checkout_stage_def update_conv' delete_conv'
      split: option.splits entry.splits prod.splits)

lemma left_alone_for_each:
  "p \<notin> set files \<Longrightarrow> left_alone p r s \<Longrightarrow> left_alone p r (for_each (auto_resolve n) files s)"
proof (induction files arbitrary: s)
  case Nil
  then show ?case by simp
next
  case (Cons f fs)
  then have "f \<noteq> p" and "left_alone p r s" by auto
  then have "left_alone p r (auto_resolve n f s)"
    by (rule left_alone_auto_resolve)
  with Cons show ?case by (simp add: Let_def)
qed

lemma left_alone_summary: "left_alone p r s \<Longrightarrow> left_alone p r (summary s)"
  by (auto simp add: left_alone_def summary_def Let_def)

lemma auto_resolve_exit:
  "r_exit s = None \<Longrightarrow> r_exit (auto_resolve n file s) \<noteq> Some 0"
  by (auto simp add: auto_resolve_def Let_def post_increment_def aborts_def split: prod.splits)

lemma for_each_exit:
  "r_exit s = None \<Longrightarrow> r_exit (for_each (auto_resolve n) files s) \<noteq> Some 0"
proof (induction files arbitrary: s)
  case Nil
  then show ?case by simp
next
  case (Cons f fs)
  show ?case
  proof (cases "r_exit (auto_resolve n f s)")
    case None
    with Cons show ?thesis by (simp add: Let_def)
  next
    case (Some st)
    with auto_resolve_exit [OF Cons.prems, of n f] show ?thesis by (simp add: Let_def)
  qed
qed

lemma summary_lists_unmerged:
  assumes "map_of (staged (r_repo s)) p = Some e" and "unmerged_code e \<noteq> None"
  shows "ManualFile p \<in> set (r_out (summary s))"
proof -
  have "(p, e) \<in> set (staged (r_repo s))"
    using assms(1) by (rule map_of_SomeD)
  then have "p \<in> set (unmerged_paths (r_repo s))"
    using assms(2) by (force simp add: unmerged_paths_def)
  then show ?thesis
    by (cases "unmerged_paths (r_repo s)") (auto simp add: summary_def Let_def)
qed

lemma left_alone_resolve:
  assumes "p \<notin> set KEEP_OURS" and "p \<notin> set TAKE_THEIRS"
  shows "left_alone p r (resolve_rebase_conflicts r)"
proof -
  let ?s0 = "\<lparr>r_repo = r, r_cmds = [GitStatus], r_out = [], resolved_count = 0, r_exit = None\<rparr>"
  let ?s1 = "for_each (auto_resolve 2) KEEP_OURS ?s0"
  let ?s2 = "for_each (auto_resolve 3) TAKE_THEIRS ?s1"
  have s0: "left_alone p r ?s0" by (simp add: left_alone_def)
  then have s0': "left_alone p r (?s0\<lparr>r_out := [NotInRebase], r_exit := Some 1\<rparr>)"
    by (simp add: left_alone_def)
  have s1: "left_alone p r ?s1" using assms(1) s0 by (rule left_alone_for_each)
  have s2: "left_alone p r ?s2" using assms(2) s1 by (rule left_alone_for_each)
  have s3: "left_alone p r (summary ?s2)" using s2 by (rule left_alone_summary)
  show ?thesis
    using s0' s1 s2 s3 unfolding resolve_rebase_conflicts_def Let_def by presburger
qed

lemma resolve_lists_unmerged:
  assumes "p \<notin> set KEEP_OURS" and "p \<notin> set TAKE_THEIRS"
    and "map_of (staged r) p = Some e" and "unmerged_code e \<noteq> None"
    and "r_exit (resolve_rebase_conflicts r) = Some 0"
  shows "ManualFile p \<in> set (r_out (resolve_rebase_conflicts r))"
proof -
  let ?s0 = "\<lparr>r_repo = r, r_cmds = [GitStatus], r_out = [], resolved_count = 0, r_exit = None\<rparr>"
  let ?s1 = "for_each (auto_resolve 2) KEEP_OURS ?s0"
  let ?s2 = "for_each (auto_resolve 3) TAKE_THEIRS ?s1"
  have e1: "r_exit ?s1 \<noteq> Some 0" by (simp add: for_each_exit)
  have reb: "rebasing r"
    using assms(5) by (auto simp add: resolve_rebase_conflicts_def Let_def split: if_splits)
  have n1: "r_exit ?s1 = None"
    using assms(5) e1 reb by (auto simp add: resolve_rebase_conflicts_def Let_def split: if_splits)
  then have e2: "r_exit ?s2 \<noteq> Some 0" by (simp add: for_each_exit)
  have n2: "r_exit ?s2 = None"
    using assms(5) e2 reb n1 by (auto simp add: resolve_rebase_conflicts_def Let_def split: if_splits)
  have res: "resolve_rebase_conflicts r = summary ?s2"
    using reb n1 n2 by (simp add: resolve_rebase_conflicts_def Let_def)
  have "left_alone p r ?s0" by (simp add: left_alone_def)
  with assms(1) have "left_alone p r ?s1" by (rule left_alone_for_each)
  with assms(2) have "left_alone p r ?s2" by (rule left_alone_for_each)
  then have "map_of (staged (r_repo ?s2)) p = Some e"
    using assms(3) by (simp add: left_alone_def)
  then show ?thesis
    unfolding res using assms(4) by (rule summary_lists_unmerged)
qed

text \<open>
  The frame of the script. For a path \<open>p\<close> in neither list, on every run: the script
  runs no \<open>git checkout\<close> and no \<open>git add\<close> on \<open>p\<close>; the index entry and the
  working-tree file of \<open>p\<close> are the same after the run as before; none of the messages
  about keeping, taking or skipping a file names \<open>p\<close>; and when the run reaches its
  summary (status 0) and \<open>p\<close> was unmerged, the list of files requiring manual
  resolution holds \<open>p\<close>.
\<close>

lemma resolve_leaves_other_files_alone:
  assumes "p \<notin> set KEEP_OURS" and "p \<notin> set TAKE_THEIRS"
  shows "GitCheckoutOurs p \<notin> set (r_cmds (resolve_rebase_conflicts r))
    \<and> GitCheckoutTheirs p \<notin> set (r_cmds (resolve_rebase_conflicts r))
    \<and> GitAdd p \<notin> set (r_cmds (resolve_rebase_conflicts r))
    \<and> map_of (staged (r_repo (resolve_rebase_conflicts r))) p = map_of (staged r) p
    \<and> worktree (r_repo (resolve_rebase_conflicts r)) p = worktree r p
    \<and> KeepingOurs p \<notin> set (r_out (resolve_rebase_conflicts r))
    \<and> DeletedInOurs p \<notin> set (r_out (resolve_rebase_conflicts r))
    \<and> TakingTheirs p \<notin> set (r_out (resolve_rebase_conflicts r))
    \<and> DeletedUpstream p \<notin> set (r_out (resolve_rebase_conflicts r))
    \<and> (r_exit (resolve_rebase_conflicts r) = Some 0 \<longrightarrow>
         (\<forall>e. map_of (staged r) p = Some e \<and> unmerged_code e \<noteq> None \<longrightarrow>
            ManualFile p \<in> set (r_out (resolve_rebase_conflicts r))))"
proof -
  have "left_alone p r (resolve_rebase_conflicts r)"
    using assms by (rule left_alone_resolve)
  moreover have "r_exit (resolve_rebase_conflicts r) = Some 0 \<longrightarrow>
         (\<forall>e. map_of (staged r) p = Some e \<and> unmerged_code e \<noteq> None \<longrightarrow>
            ManualFile p \<in> set (r_out (resolve_rebase_conflicts r)))"
    using resolve_lists_unmerged [OF assms] by blast
  ultimately show ?thesis
    unfolding left_alone_def by blast
qed

lemma resolve_lists_source_conflict:
  "''src/app.ts'' \<notin> set KEEP_OURS \<and> ''src/app.ts'' \<notin> set TAKE_THEIRS
   \<and> r_exit (resolve_rebase_conflicts one_source_conflict) = Some 0
   \<and> map_of (staged one_source_conflict) ''src/app.ts''
       = Some (Unmerged (Some ''a0'') (Some ''a-ours'') (Some ''a-theirs''))
   \<and> GitAdd ''src/app.ts'' \<notin> set (r_cmds (resolve_rebase_conflicts one_source_conflict))
   \<and> map_of (staged (r_repo (resolve_rebase_conflicts one_source_conflict))) ''src/app.ts''
       = Some (Unmerged (Some ''a0'') (Some ''a-ours'') (Some ''a-theirs''))
   \<and> ManualFile ''src/app.ts'' \<in> set (r_out (resolve_rebase_conflicts one_source_conflict))"
proof -
  have k: "''src/app.ts'' \<notin> set KEEP_OURS" by (simp add: KEEP_OURS_def)
  have t: "''src/app.ts'' \<notin> set TAKE_THEIRS" by (simp add: TAKE_THEIRS_def)
  have x: "r_exit (resolve_rebase_conflicts one_source_conflict) = Some 0"
    by (simp add: resolve_eval one_source_conflict_def)
  have m: "map_of (staged one_source_conflict) ''src/app.ts''
       = Some (Unmerged (Some ''a0'') (Some ''a-ours'') (Some ''a-theirs''))"
    by (simp add: one_source_conflict_def)
  have u: "unmerged_code (Unmerged (Some ''a0'') (Some ''a-ours'') (Some ''a-theirs'')) \<noteq> None"
    by simp
  show ?thesis
    using resolve_leaves_other_files_alone [OF k t, of one_source_conflict] k t x m u
    by simp
qed

text \<open>
  Claim C9 fails on the code in its last part. With \<open>package.json\<close> and \<open>src/app.ts\<close>
  both in conflict, the script stages \<open>package.json\<close> and then ends with status 1 at
  the increment of \<open>resolved_count\<close>, as in claim C1. \<open>src/app.ts\<close>, which is in neither
  list, is left as it was, but the script ends before its summary and never prints the
  name as requiring manual resolution.
\<close>

theorem resolve_exits_before_listing:
  "rebasing tooling_and_source_conflict
   \<and> ''src/app.ts'' \<notin> set (KEEP_OURS @ TAKE_THEIRS)
   \<and> unmerged_paths tooling_and_source_conflict = [''package.json'', ''src/app.ts'']
   \<and> r_exit (resolve_rebase_conflicts tooling_and_source_conflict) = Some 1
   \<and> r_cmds (resolve_rebase_conflicts tooling_and_source_conflict) =
        [GitStatus, GitStatusPorcelain, GitShow 2 ''package.json'',
         GitCheckoutOurs ''package.json'', GitAdd ''package.json'']
   \<and> r_out (resolve_rebase_conflicts tooling_and_source_conflict) = [KeepingOurs ''package.json'']
   \<and> ManualFile ''src/app.ts'' \<notin> set (r_out (resolve_rebase_conflicts tooling_and_source_conflict))
   \<and> unmerged_paths (r_repo (resolve_rebase_conflicts tooling_and_source_conflict)) = [''src/app.ts'']"
  by (simp add: resolve_eval tooling_and_source_conflict_def)

text \<open>
  The defect behind claims C1 and C9 does not depend on the example: as long as the
  script has not ended, it has resolved nothing and the repository is as it was, since
  the first file it stages ends it. So a run that reaches the summary has changed
  nothing, and no run stages more than one file.
\<close>

lemma auto_resolve_first_ends:
  assumes "r_exit s = None" and "resolved_count s = 0"
    and "r_exit (auto_resolve n f s) = None"
  shows "r_repo (auto_resolve n f s) = r_repo s \<and> resolved_count (auto_resolve n f s) = 0"
  using assms
  by (auto simp add: auto_resolve_def Let_def post_increment_def aborts_def resolve_opts_def
      split: if_splits)

lemma for_each_first_ends:
  assumes "r_exit s = None" and "resolved_count s = 0"
    and "r_exit (for_each (auto_resolve n) fs s) = None"
  shows "r_repo (for_each (auto_resolve n) fs s) = r_repo s
    \<and> resolved_count (for_each (auto_resolve n) fs s) = 0"
  using assms
proof (induction fs arbitrary: s)
  case Nil
  then show ?case by simp
next
  case (Cons f fs)
  have n: "r_exit (auto_resolve n f s) = None"
    using Cons.prems(3) by (simp add: Let_def split: if_splits)
  with Cons.prems have a: "r_repo (auto_resolve n f s) = r_repo s"
    and b: "resolved_count (auto_resolve n f s) = 0"
    using auto_resolve_first_ends by blast+
  from Cons.prems(3) n have "r_exit (for_each (auto_resolve n) fs (auto_resolve n f s)) = None"
    by (simp add: Let_def)
  with Cons.IH [OF n b] a n show ?case by (simp add: Let_def)
qed

lemma resolve_summary_only_unchanged:
  assumes "r_exit (resolve_rebase_conflicts r) = Some 0"
  shows "r_repo (resolve_rebase_conflicts r) = r
    \<and> AutoResolved 0 \<in> set (r_out (resolve_rebase_conflicts r))"
proof -
  let ?s0 = "\<lparr>r_repo = r, r_cmds = [GitStatus], r_out = [], resolved_count = 0, r_exit = None\<rparr>"
  let ?s1 = "for_each (auto_resolve 2) KEEP_OURS ?s0"
  let ?s2 = "for_each (auto_resolve 3) TAKE_THEIRS ?s1"
  have e1: "r_exit ?s1 \<noteq> Some 0" by (simp add: for_each_exit)
  have reb: "rebasing r"
    using assms by (auto simp add: resolve_rebase_conflicts_def Let_def split: if_splits)
  have n1: "r_exit ?s1 = None"
    using assms e1 reb by (auto simp add: resolve_rebase_conflicts_def Let_def split: if_splits)
  then have e2: "r_exit ?s2 \<noteq> Some 0" by (simp add: for_each_exit)
  have n2: "r_exit ?s2 = None"
    using assms e2 reb n1 by (auto simp add: resolve_rebase_conflicts_def Let_def split: if_splits)
  have res: "resolve_rebase_conflicts r = summary ?s2"
    using reb n1 n2 by (simp add: resolve_rebase_conflicts_def Let_def)
  have s1: "r_repo ?s1 = r \<and> resolved_count ?s1 = 0"
    using for_each_first_ends [of ?s0 2 KEEP_OURS] n1 by simp
  then have s2: "r_repo ?s2 = r \<and> resolved_count ?s2 = 0"
    using for_each_first_ends [of ?s1 3 TAKE_THEIRS] n1 n2 by simp
  show ?thesis
    unfolding res using s2 by (simp add: summary_def Let_def)
qed

section \<open>Properties of scripts/sync-upstream.sh\<close>

lemma sync_current:
  assumes "sy_fetch e = 0" and "sy_rev_parse e = 0" and "snd (sy_log e) = []"
  shows "sync_upstream e r =
    finish 0 [GitFetchUpstream, GitRevParseHead, GitLogHeadUpstream]
      [''Fork is current with upstream''] (git_fetch (sy_fetched_tip e) r)"
  using assms by (simp add: sync_upstream_def Let_def aborts_def sync_opts_def pipeline_status_def)

lemma sync_conflict:
  assumes "sy_fetch e = 0" and "sy_rev_parse e = 0" and "snd (sy_log e) \<noteq> []"
    and "sy_merge_base e = 0" and "fst (sy_merge_tree e) = 0"
    and "list_ex (contains ''<<<<<<< '') (snd (sy_merge_tree e))"
  shows "exit_status (sync_upstream e r) = 1
    \<and> invoked (sync_upstream e r) =
        [GitFetchUpstream, GitRevParseHead, GitLogHeadUpstream, GitLogHeadUpstream,
         GitMergeBase, GitMergeTree]
    \<and> final_repo (sync_upstream e r) = git_fetch (sy_fetched_tip e) r"
  using assms by (simp add: sync_upstream_def Let_def aborts_def sync_opts_def pipeline_status_def
      finish_def)

text \<open>
  Claim C5 as stated fails in its last part: in the conflict case the script has already
  run \<open>git fetch upstream\<close>, so the repository it leaves differs from the one it
  started on in the remote-tracking ref.
\<close>

theorem sync_conflict_counterexample:
  "list_ex (contains ''<<<<<<< '') (snd (sy_merge_tree conflicting_upstream))
   \<and> exit_status (sync_upstream conflicting_upstream fork_repo) = 1
   \<and> upstream_main fork_repo = Some 3
   \<and> upstream_main (final_repo (sync_upstream conflicting_upstream fork_repo)) = Some 7
   \<and> final_repo (sync_upstream conflicting_upstream fork_repo) \<noteq> fork_repo"
proof -
  have m: "list_ex (contains ''<<<<<<< '') (snd (sy_merge_tree conflicting_upstream))"
    by (simp add: conflicting_upstream_def starts_with_def)
  have c: "exit_status (sync_upstream conflicting_upstream fork_repo) = 1
    \<and> final_repo (sync_upstream conflicting_upstream fork_repo)
        = git_fetch (sy_fetched_tip conflicting_upstream) fork_repo"
    using sync_conflict [of conflicting_upstream fork_repo] m
    by (simp add: conflicting_upstream_def)
  have u: "upstream_main (git_fetch (sy_fetched_tip conflicting_upstream) fork_repo) = Some 7"
    by (simp add: git_fetch_def conflicting_upstream_def)
  have v: "upstream_main fork_repo = Some 3"
    by (simp add: fork_repo_def)
  from u v have "git_fetch (sy_fetched_tip conflicting_upstream) fork_repo \<noteq> fork_repo"
    by auto
  with m c u v show ?thesis by simp
qed

text \<open>
  Claim C5, amended. When the script reaches its count of upstream commits (the fetch and
  \<open>git rev-parse\<close> succeeded) and the count is zero, it exits with status 0, reporting
  the fork as current. When it obtains the merge-tree preview (the count is not zero,
  \<open>git merge-base\<close> and \<open>git merge-tree\<close> succeeded) and the preview holds a conflict
  marker, it exits with status 1 and has run no rebase; the repository it leaves is the
  one it started on with only the remote-tracking ref moved by the initial fetch: branches,
  HEAD, index and working tree are unchanged.
\<close>

theorem sync_upstream_exit_status:
  "(sy_fetch e = 0 \<and> sy_rev_parse e = 0 \<and> snd (sy_log e) = [] \<longrightarrow>
      exit_status (sync_upstream e r) = 0
      \<and> printed (sync_upstream e r) = [''Fork is current with upstream''])
   \<and> (sy_fetch e = 0 \<and> sy_rev_parse e = 0 \<and> snd (sy_log e) \<noteq> []
       \<and> sy_merge_base e = 0 \<and> fst (sy_merge_tree e) = 0
       \<and> list_ex (contains ''<<<<<<< '') (snd (sy_merge_tree e)) \<longrightarrow>
      exit_status (sync_upstream e r) = 1
      \<and> GitRebaseUpstream \<notin> set (invoked (sync_upstream e r))
      \<and> final_repo (sync_upstream e r) = r\<lparr>upstream_main := Some (sy_fetched_tip e)\<rparr>)"
proof -
  have a: "sy_fetch e = 0 \<and> sy_rev_parse e = 0 \<and> snd (sy_log e) = [] \<longrightarrow>
      exit_status (sync_upstream e r) = 0
      \<and> printed (sync_upstream e r) = [''Fork is current with upstream'']"
    using sync_current [of e r] by (simp add: finish_def)
  have b: "sy_fetch e = 0 \<and> sy_rev_parse e = 0 \<and> snd (sy_log e) \<noteq> []
       \<and> sy_merge_base e = 0 \<and> fst (sy_merge_tree e) = 0
       \<and> list_ex (contains ''<<<<<<< '') (snd (sy_merge_tree e)) \<longrightarrow>
      exit_status (sync_upstream e r) = 1
      \<and> GitRebaseUpstream \<notin> set (invoked (sync_upstream e r))
      \<and> final_repo (sync_upstream e r) = r\<lparr>upstream_main := Some (sy_fetched_tip e)\<rparr>"
    using sync_conflict [of e r] by (simp add: git_fetch_def)
  from a b show ?thesis by blast
qed

theorem sync_upstream_exit_status_witness:
  "sy_fetch nothing_new = 0 \<and> sy_rev_parse nothing_new = 0 \<and> snd (sy_log nothing_new) = []
   \<and> exit_status (sync_upstream nothing_new fork_repo) = 0
   \<and> sy_fetch conflicting_upstream = 0 \<and> sy_rev_parse conflicting_upstream = 0
   \<and> snd (sy_log conflicting_upstream) \<noteq> [] \<and> sy_merge_base conflicting_upstream = 0
   \<and> fst (sy_merge_tree conflicting_upstream) = 0
   \<and> list_ex (contains ''<<<<<<< '') (snd (sy_merge_tree conflicting_upstream))
   \<and> exit_status (sync_upstream conflicting_upstream fork_repo) = 1
   \<and> GitRebaseUpstream \<notin> set (invoked (sync_upstream conflicting_upstream fork_repo))
   \<and> final_repo (sync_upstream conflicting_upstream fork_repo) = fork_repo\<lparr>upstream_main := Some 7\<rparr>"
proof -
  have n: "sy_fetch nothing_new = 0 \<and> sy_rev_parse nothing_new = 0 \<and> snd (sy_log nothing_new) = []"
    by (simp add: nothing_new_def)
  have c: "sy_fetch conflicting_upstream = 0 \<and> sy_rev_parse conflicting_upstream = 0
   \<and> snd (sy_log conflicting_upstream) \<noteq> [] \<and> sy_merge_base conflicting_upstream = 0
   \<and> fst (sy_merge_tree conflicting_upstream) = 0 \<and> sy_fetched_tip conflicting_upstream = 7"
    by (simp add: conflicting_upstream_def)
  have m: "list_ex (contains ''<<<<<<< '') (snd (sy_merge_tree conflicting_upstream))"
    by (simp add: conflicting_upstream_def starts_with_def)
  show ?thesis
    using sync_upstream_exit_status [of nothing_new fork_repo]
      sync_upstream_exit_status [of conflicting_upstream fork_repo] n c m
    by simp
qed

section \<open>Properties of scripts/rebase-from-upstream.sh\<close>














lemma readiness_cmds_no_rebase: "GitRebaseUpstream \<notin> set readiness_cmds"
  by (simp add: readiness_cmds_def)


















section \<open>Properties of the shell options\<close>










end
